theory Spec2Isabelle
  imports Main "HOL-Library.Word"
begin

section \<open>JavaScript values used by the stores\<close>

text \<open>
  A JavaScript string is a sequence of 16-bit code units. Literals of the source are
  written with \<open>js\<close>; the one non-ASCII literal (the dash U+2014 of the push error) is
  written by its code unit.
\<close>

type_synonym jschar = "16 word"
type_synonym jsstring = "jschar list"

definition js :: "string \<Rightarrow> jsstring" where
  "js s = map of_char s"

text \<open>Truthiness of a \<open>string | null | undefined\<close>: only a non-empty string is truthy.\<close>

definition truthy :: "jsstring option \<Rightarrow> bool" where
  "truthy v = (case v of None \<Rightarrow> False | Some s \<Rightarrow> s \<noteq> [])"

text \<open>
  What a \<open>throw\<close> or a rejected promise carries: an \<open>Error\<close> (or a subclass, or a
  \<open>DOMException\<close>, which also is an \<open>instanceof Error\<close>) with its message, or any
  other value.
\<close>

datatype js_exn = Error (message: jsstring) | NonError

subsection \<open>\<open>String.prototype.toLowerCase\<close>\<close>

text \<open>
  Exact on the code units U+0000..U+00FF (A-Z, and the Latin-1 capitals U+00C0..U+00DE
  without the multiplication sign U+00D7). Code units above U+00FF follow the host's
  Unicode tables in the browser; here they are left as they are.
\<close>

definition lower_unit :: "jschar \<Rightarrow> jschar" where
  "lower_unit c =
     (if (0x41 \<le> c \<and> c \<le> 0x5A) \<or> (0xC0 \<le> c \<and> c \<le> 0xDE \<and> c \<noteq> 0xD7) then c + 0x20 else c)"

definition toLowerCase :: "jsstring \<Rightarrow> jsstring" where
  "toLowerCase s = map lower_unit s"

subsection \<open>\<open>btoa\<close> and base64\<close>

text \<open>The base64 alphabet: index 0..63 to the code unit of A-Z, a-z, 0-9, +, /.\<close>

definition b64code :: "nat \<Rightarrow> nat" where
  "b64code n =
     (if n < 26 then 65 + n
      else if n < 52 then 97 + (n - 26)
      else if n < 62 then 48 + (n - 52)
      else if n = 62 then 0x2B else 0x2F)"

definition b64char :: "nat \<Rightarrow> jschar" where
  "b64char n = of_nat (b64code n)"

definition b64val :: "jschar \<Rightarrow> nat option" where
  "b64val c =
     (if 0x41 \<le> c \<and> c \<le> 0x5A then Some (unat c - 65)
      else if 0x61 \<le> c \<and> c \<le> 0x7A then Some (unat c - 97 + 26)
      else if 0x30 \<le> c \<and> c \<le> 0x39 then Some (unat c - 48 + 52)
      else if c = 0x2B then Some 62
      else if c = 0x2F then Some 63
      else None)"

text \<open>Three bytes become four alphabet characters; a short last group is padded with \<open>=\<close>.\<close>

fun b64encode :: "nat list \<Rightarrow> jsstring" where
  "b64encode (a # b # c # r) =
     [b64char (a div 4), b64char ((a mod 4) * 16 + b div 16),
      b64char ((b mod 16) * 4 + c div 64), b64char (c mod 64)] @ b64encode r"
| "b64encode [a, b] =
     [b64char (a div 4), b64char ((a mod 4) * 16 + b div 16), b64char ((b mod 16) * 4), 0x3D]"
| "b64encode [a] = [b64char (a div 4), b64char ((a mod 4) * 16), 0x3D, 0x3D]"
| "b64encode [] = []"

text \<open>The decoder of the remote side: groups of four, padding only in the last group.\<close>

fun b64decode :: "jsstring \<Rightarrow> nat list option" where
  "b64decode [] = Some []"
| "b64decode (w # x # y # z # r) =
     (if r = [] \<and> z = 0x3D then
        (if y = 0x3D then
           (case (b64val w, b64val x) of
              (Some p, Some q) \<Rightarrow> Some [p * 4 + q div 16]
            | _ \<Rightarrow> None)
         else
           (case (b64val w, b64val x, b64val y) of
              (Some p, Some q, Some t) \<Rightarrow> Some [p * 4 + q div 16, (q mod 16) * 16 + t div 4]
            | _ \<Rightarrow> None))
      else
        (case (b64val w, b64val x, b64val y, b64val z) of
           (Some p, Some q, Some t, Some u) \<Rightarrow>
             (case b64decode r of
                Some bs \<Rightarrow> Some ([p * 4 + q div 16, (q mod 16) * 16 + t div 4, (t mod 4) * 64 + u] @ bs)
              | None \<Rightarrow> None)
         | _ \<Rightarrow> None))"
| "b64decode _ = None"

text \<open>
  \<open>btoa\<close> takes each code unit as one byte and throws an \<open>InvalidCharacterError\<close>
  \<open>DOMException\<close> when a code unit is above U+00FF. The message is the one of Chrome, the
  host of the extension; nothing below depends on its wording.
\<close>

definition invalid_character_message :: jsstring where
  "invalid_character_message =
     js ''Failed to execute 'btoa' on 'Window': The string to be encoded contains characters outside of the Latin1 range.''"

definition btoa :: "jsstring \<Rightarrow> js_exn + jsstring" where
  "btoa s =
     (if list_all (\<lambda>c. c \<le> 0xFF) s then Inr (b64encode (map unat s))
      else Inl (Error invalid_character_message))"

section \<open>The stores and the persistent storage\<close>

record GitHubUser =
  login :: jsstring
  avatar_url :: jsstring
  user_id :: int

record SubmissionData =
  problemTitle :: jsstring
  language :: jsstring
  code :: jsstring

text \<open>The two keys of \<open>chrome.storage.local\<close> that the auth store reads and writes.\<close>

record storage =
  stored_githubToken :: "jsstring option"
  stored_tokenCreatedAt :: "int option"

text \<open>
  Every \<open>fetch\<close> is logged with the function that issued it: \<open>verifyToken\<close> and
  \<open>fetchUserInfo\<close> send the same request on the wire.
\<close>

datatype call_site = VerifyToken | FetchUserInfo | PushRead | PushWrite

datatype http_method = GET | PUT

record put_body =
  body_message :: jsstring
  body_content :: jsstring
  body_branch :: jsstring
  body_sha :: "jsstring option"

record request =
  site :: call_site
  http_method :: http_method
  url :: jsstring
  authorization :: jsstring
  accept :: jsstring
  body :: "put_body option"

text \<open>
  The writable stores of \<open>auth.ts\<close>, of the push store and \<open>selectedRepo\<close> of the
  repository store, the persistent storage, and the log of requests sent (oldest first).
\<close>

record state =
  githubToken :: "jsstring option"
  githubUser :: "GitHubUser option"
  authLoading :: bool
  authError :: "jsstring option"
  selectedRepo :: "jsstring option"
  latestSubmission :: "SubmissionData option"
  pushLoading :: bool
  pushError :: "jsstring option"
  pushSuccess :: bool
  storage :: storage
  requests :: "request list"

text \<open>A response: its status and what \<open>response.json()\<close> resolves to (or rejects with).\<close>

record 'a response =
  status :: nat
  json :: "js_exn + 'a"

definition ok :: "'a response \<Rightarrow> bool" where
  "ok r = (200 \<le> status r \<and> status r \<le> 299)"

section \<open>The auth store\<close>

definition TOKEN_REVALIDATION_MS :: int where
  "TOKEN_REVALIDATION_MS = 7 * 24 * 60 * 60 * 1000"

text \<open>
  What the host gives one run of \<open>checkAuthStatus\<close>: whether the storage calls reject,
  the two readings of \<open>Date.now()\<close>, and the outcome of each \<open>fetch\<close>.
\<close>

record auth_env =
  storage_get_rejects :: "js_exn option"
  now_read :: int
  verify_fetch :: "js_exn + unit response"
  storage_set_rejects :: "js_exn option"
  now_refresh :: int
  user_fetch :: "js_exn + GitHubUser response"

text \<open>
  Modelled from the spec: \<open>clearAuth\<close> of \<open>../lib/storage\<close> is imported by
  \<open>auth.ts\<close> and is not among the sources. The spec has it clear the contents of the
  credential store (the token and its creation timestamp) and always succeed.
\<close>

definition clearAuth :: "storage \<Rightarrow> storage" where
  "clearAuth s = s\<lparr>stored_githubToken := None, stored_tokenCreatedAt := None\<rparr>"

definition identity_request :: "call_site \<Rightarrow> jsstring \<Rightarrow> request" where
  "identity_request cs token =
     \<lparr>site = cs, http_method = GET, url = js ''https://api.github.com/user'',
      authorization = js ''token '' @ token, accept = js ''application/vnd.github.v3+json'',
      body = None\<rparr>"

definition handleInvalidToken :: "state \<Rightarrow> state" where
  "handleInvalidToken st =
     st\<lparr>storage := clearAuth (storage st), githubToken := None, githubUser := None,
        authError := Some (js ''Session expired. Please sign in again.'')\<rparr>"

definition verifyToken :: "auth_env \<Rightarrow> jsstring \<Rightarrow> state \<Rightarrow> bool \<times> state" where
  "verifyToken env token st =
     (let st1 = st\<lparr>requests := requests st @ [identity_request VerifyToken token]\<rparr> in
      case verify_fetch env of
        Inl error \<Rightarrow> (False, st1)
      | Inr response \<Rightarrow> (ok response, st1))"

definition fetchUserInfo :: "auth_env \<Rightarrow> jsstring \<Rightarrow> state \<Rightarrow> state" where
  "fetchUserInfo env token st =
     (let st1 = st\<lparr>requests := requests st @ [identity_request FetchUserInfo token]\<rparr> in
      case user_fetch env of
        Inl error \<Rightarrow> st1
      | Inr response \<Rightarrow>
          if ok response then
            (case json response of
               Inl error \<Rightarrow> st1
             | Inr user \<Rightarrow> st1\<lparr>githubUser := Some user\<rparr>)
          else st1)"

text \<open>
  Lines 22 and 23: \<open>tokenCreatedAt || 0\<close> and \<open>!tokenCreatedAt\<close>. A stored number is
  falsy when it is absent or 0.
\<close>

definition needsRevalidation :: "int \<Rightarrow> int option \<Rightarrow> bool" where
  "needsRevalidation now tokenCreatedAt =
     (let tokenAge = now - (case tokenCreatedAt of None \<Rightarrow> 0 | Some t \<Rightarrow> t)
      in (tokenCreatedAt = None \<or> tokenCreatedAt = Some 0) \<or> tokenAge > TOKEN_REVALIDATION_MS)"

text \<open>The \<open>try\<close> block of \<open>checkAuthStatus\<close>: \<open>Inl\<close> is what reaches its \<open>catch\<close>.\<close>

definition checkAuthStatus_try :: "auth_env \<Rightarrow> state \<Rightarrow> (js_exn + unit) \<times> state" where
  "checkAuthStatus_try env st =
     (case storage_get_rejects env of
        Some error \<Rightarrow> (Inl error, st)
      | None \<Rightarrow>
          (let storedToken = stored_githubToken (storage st);
               tokenCreatedAt = stored_tokenCreatedAt (storage st)
           in
          if truthy storedToken then
            (if needsRevalidation (now_read env) tokenCreatedAt then
               (case verifyToken env (the storedToken) st of
                  (isValid, st1) \<Rightarrow>
                    if isValid then
                      (case storage_set_rejects env of
                         Some error \<Rightarrow> (Inl error, st1)
                       | None \<Rightarrow>
                           (Inr (),
                            fetchUserInfo env (the storedToken)
                              (st1\<lparr>storage := (storage st1)\<lparr>stored_tokenCreatedAt := Some (now_refresh env)\<rparr>,
                                   githubToken := storedToken\<rparr>)))
                    else (Inr (), handleInvalidToken st1))
             else (Inr (), fetchUserInfo env (the storedToken) (st\<lparr>githubToken := storedToken\<rparr>)))
          else (Inr (), st)))"

definition checkAuthStatus :: "auth_env \<Rightarrow> state \<Rightarrow> state" where
  "checkAuthStatus env st =
     (case checkAuthStatus_try env (st\<lparr>authLoading := True, authError := None\<rparr>) of
        (Inl error, st1) \<Rightarrow>
          st1\<lparr>authError := Some (js ''Failed to check authentication status''), authLoading := False\<rparr>
      | (Inr u, st1) \<Rightarrow> st1\<lparr>authLoading := False\<rparr>)"

text \<open>The requests that one run of \<open>checkAuthStatus\<close> adds to the log.\<close>

definition checkAuthStatus_calls :: "auth_env \<Rightarrow> state \<Rightarrow> request list" where
  "checkAuthStatus_calls env st = drop (length (requests st)) (requests (checkAuthStatus env st))"

section \<open>The push store\<close>

text \<open>
  \<open>extensionMap\<close> is an object literal: its own properties, in the order of the source.
\<close>

definition extensionMap :: "(jsstring \<times> jsstring) list" where
  "extensionMap =
     [(js ''python'', js ''py''), (js ''python3'', js ''py''), (js ''javascript'', js ''js''),
      (js ''typescript'', js ''ts''), (js ''cpp'', js ''c++''), (js ''c#'', js ''cs''),
      (js ''csharp'', js ''cs''), (js ''java'', js ''java''), (js ''c'', js ''c''),
      (js ''go'', js ''go''), (js ''rust'', js ''rs''), (js ''ruby'', js ''rb''),
      (js ''swift'', js ''swift''), (js ''kotlin'', js ''kt''), (js ''scala'', js ''scala''),
      (js ''php'', js ''php'')]"

text \<open>
  What reading a property of \<open>extensionMap\<close> can give. A property that is not its own is
  looked up in \<open>Object.prototype\<close>; of the names found there only \<open>constructor\<close> and
  \<open>__proto__\<close> have no capital letter, so only they can be the result of \<open>toLowerCase\<close>.
\<close>

datatype js_value = Undefined | Str jsstring | ObjectConstructor | ObjectPrototype

definition extensionMap_get :: "jsstring \<Rightarrow> js_value" where
  "extensionMap_get k =
     (case map_of extensionMap k of
        Some v \<Rightarrow> Str v
      | None \<Rightarrow>
          if k = js ''constructor'' then ObjectConstructor
          else if k = js ''__proto__'' then ObjectPrototype
          else Undefined)"

text \<open>\<open>v || d\<close>: objects and functions are truthy, \<open>undefined\<close> and the empty string are not.\<close>

definition or_else :: "js_value \<Rightarrow> js_value \<Rightarrow> js_value" where
  "or_else v d = (case v of Undefined \<Rightarrow> d | Str s \<Rightarrow> (if s = [] then d else v) | _ \<Rightarrow> v)"

text \<open>The conversion to a string that a template literal applies.\<close>

definition to_string :: "js_value \<Rightarrow> jsstring" where
  "to_string v =
     (case v of
        Undefined \<Rightarrow> js ''undefined''
      | Str s \<Rightarrow> s
      | ObjectConstructor \<Rightarrow> js ''function Object() { [native code] }''
      | ObjectPrototype \<Rightarrow> js ''[object Object]'')"

text \<open>
  The character class of the regular expression of line 51, as code units: slash,
  backslash, question mark, percent, asterisk, colon, bar, double quote, less-than and
  greater-than. Each of them becomes a hyphen (U+002D).
\<close>

definition unsafe_units :: "jschar list" where
  "unsafe_units = [0x2F, 0x5C, 0x3F, 0x25, 0x2A, 0x3A, 0x7C, 0x22, 0x3C, 0x3E]"

definition safeTitle :: "SubmissionData \<Rightarrow> jsstring" where
  "safeTitle submission = map (\<lambda>c. if c \<in> set unsafe_units then 0x2D else c) (problemTitle submission)"

definition ext :: "SubmissionData \<Rightarrow> js_value" where
  "ext submission = or_else (extensionMap_get (toLowerCase (language submission))) (Str (js ''txt''))"

definition filePath :: "SubmissionData \<Rightarrow> jsstring" where
  "filePath submission = safeTitle submission @ js ''.'' @ to_string (ext submission)"

definition commit_message :: "jsstring option \<Rightarrow> SubmissionData \<Rightarrow> jsstring" where
  "commit_message commitMessage submission =
     (if truthy commitMessage then the commitMessage else safeTitle submission @ js '' Solved'')"

text \<open>The body of a successful read: \<open>existing.sha\<close> and \<open>existing.content\<close>.\<close>

record existing_file =
  sha :: "jsstring option"
  content :: "jsstring option"

text \<open>The body of a failed write: \<open>error.message\<close>.\<close>

record error_body =
  error_message :: "jsstring option"

record push_env =
  read_fetch :: "js_exn + existing_file response"
  write_fetch :: "js_exn + error_body response"

definition session_expired :: jsstring where
  "session_expired = js ''Session expired '' @ [0x2014] @ js '' please sign in again''"

definition read_request :: "jsstring \<Rightarrow> jsstring \<Rightarrow> SubmissionData \<Rightarrow> request" where
  "read_request token repo submission =
     \<lparr>site = PushRead, http_method = GET,
      url = js ''https://api.github.com/repos/'' @ repo @ js ''/contents/'' @ filePath submission
            @ js ''?ref=main'',
      authorization = js ''token '' @ token, accept = js ''application/vnd.github.v3+json'',
      body = None\<rparr>"

text \<open>\<open>...(sha && { sha })\<close>: the field is there when \<open>sha\<close> is a non-empty string.\<close>

definition write_request ::
  "jsstring \<Rightarrow> jsstring \<Rightarrow> SubmissionData \<Rightarrow> jsstring \<Rightarrow> jsstring \<Rightarrow> jsstring option \<Rightarrow> request" where
  "write_request token repo submission msg encoded sha_opt =
     \<lparr>site = PushWrite, http_method = PUT,
      url = js ''https://api.github.com/repos/'' @ repo @ js ''/contents/'' @ filePath submission,
      authorization = js ''token '' @ token, accept = js ''application/vnd.github.v3+json'',
      body = Some \<lparr>body_message = msg, body_content = encoded, body_branch = js ''main'',
                   body_sha = (if truthy sha_opt then sha_opt else None)\<rparr>\<rparr>"

text \<open>Line 75: every line feed (U+000A) is removed; an absent \<open>content\<close> stays absent.\<close>

definition strip_newlines :: "jsstring option \<Rightarrow> jsstring option" where
  "strip_newlines c = map_option (filter (\<lambda>u. u \<noteq> 0x0A)) c"

text \<open>
  Lines 82 to 107, from the second \<open>fetch\<close> on: \<open>Inl\<close> is what is thrown, \<open>Inr\<close> what
  is returned.
\<close>

definition push_write ::
  "push_env \<Rightarrow> jsstring option \<Rightarrow> jsstring \<Rightarrow> jsstring \<Rightarrow> SubmissionData \<Rightarrow> jsstring option
     \<Rightarrow> state \<Rightarrow> (js_exn + bool) \<times> state" where
  "push_write env commitMessage token repo submission sha_opt st =
     (case btoa (code submission) of
        Inl error \<Rightarrow> (Inl error, st)
      | Inr encoded \<Rightarrow>
          (let st1 = st\<lparr>requests := requests st
                       @ [write_request token repo submission (commit_message commitMessage submission)
                            encoded sha_opt]\<rparr>
           in
           (case write_fetch env of
              Inl error \<Rightarrow> (Inl error, st1)
            | Inr response \<Rightarrow>
                if status response = 401 then
                  (Inl (Error session_expired), handleInvalidToken st1)
                else if \<not> ok response then
                  (case json response of
                     Inl error \<Rightarrow> (Inl error, st1)
                   | Inr error \<Rightarrow>
                       (Inl (Error (if truthy (error_message error) then the (error_message error)
                                    else js ''Failed to push to GitHub'')), st1))
                else (Inr True, st1\<lparr>pushSuccess := True\<rparr>))))"

text \<open>The \<open>try\<close> block of \<open>pushToGitHub\<close>, lines 50 to 107.\<close>

definition push_try ::
  "push_env \<Rightarrow> jsstring option \<Rightarrow> jsstring \<Rightarrow> jsstring \<Rightarrow> SubmissionData
     \<Rightarrow> state \<Rightarrow> (js_exn + bool) \<times> state" where
  "push_try env commitMessage token repo submission st =
     (let st1 = st\<lparr>requests := requests st @ [read_request token repo submission]\<rparr> in
      case read_fetch env of
        Inl error \<Rightarrow> (Inl error, st1)
      | Inr existingResponse \<Rightarrow>
          if status existingResponse = 401 then
            (Inl (Error session_expired), handleInvalidToken st1)
          else if ok existingResponse then
            (case json existingResponse of
               Inl error \<Rightarrow> (Inl error, st1)
             | Inr existing \<Rightarrow>
                 (case btoa (code submission) of
                    Inl error \<Rightarrow> (Inl error, st1)
                  | Inr encoded \<Rightarrow>
                      if strip_newlines (content existing) = Some encoded then
                        (Inr False, st1\<lparr>pushSuccess := True\<rparr>)
                      else push_write env commitMessage token repo submission (sha existing) st1))
          else push_write env commitMessage token repo submission None st1)"

text \<open>
  \<open>pushToGitHub\<close>: the three guards, the flags of lines 46 to 48 (\<open>push_entry\<close>), the
  \<open>try\<close> block, and its \<open>catch\<close> and \<open>finally\<close>. The result is what the promise
  rejects with (\<open>Inl\<close>) or resolves to.
\<close>

definition push_entry :: "state \<Rightarrow> state" where
  "push_entry st = st\<lparr>pushLoading := True, pushError := None, pushSuccess := False\<rparr>"

definition pushToGitHub :: "push_env \<Rightarrow> jsstring option \<Rightarrow> state \<Rightarrow> (js_exn + bool) \<times> state" where
  "pushToGitHub env commitMessage st =
     (if \<not> truthy (githubToken st) then (Inl (Error (js ''Not authenticated'')), st)
      else if \<not> truthy (selectedRepo st) then (Inl (Error (js ''No repository selected'')), st)
      else if latestSubmission st = None then (Inl (Error (js ''No submission to push'')), st)
      else
        (case push_try env commitMessage (the (githubToken st)) (the (selectedRepo st))
                (the (latestSubmission st)) (push_entry st) of
           (Inl error, st1) \<Rightarrow>
             (Inl error,
              st1\<lparr>pushError := Some (case error of Error m \<Rightarrow> m | NonError \<Rightarrow> js ''Failed to push''),
                  pushLoading := False\<rparr>)
         | (Inr written, st1) \<Rightarrow> (Inr written, st1\<lparr>pushLoading := False\<rparr>)))"

text \<open>The requests that one run of \<open>pushToGitHub\<close> adds to the log.\<close>

definition push_calls :: "push_env \<Rightarrow> jsstring option \<Rightarrow> state \<Rightarrow> request list" where
  "push_calls env commitMessage st =
     drop (length (requests st)) (requests (snd (pushToGitHub env commitMessage st)))"

definition write_calls :: "push_env \<Rightarrow> jsstring option \<Rightarrow> state \<Rightarrow> request list" where
  "write_calls env commitMessage st =
     filter (\<lambda>q. site q = PushWrite) (push_calls env commitMessage st)"

section \<open>Example inputs\<close>

definition two_sum :: SubmissionData where
  "two_sum = \<lparr>problemTitle = js ''Two Sum'', language = js ''python'', code = js ''print(1)''\<rparr>"

text \<open>A signed-in session with a repository and the Two Sum submission, nothing sent yet.\<close>

definition ready :: state where
  "ready =
     \<lparr>githubToken = Some (js ''gho_1''), githubUser = None, authLoading = False, authError = None,
      selectedRepo = Some (js ''octo/solutions''), latestSubmission = Some two_sum,
      pushLoading = False, pushError = None, pushSuccess = False,
      storage = \<lparr>stored_githubToken = Some (js ''gho_1''),
                 stored_tokenCreatedAt = Some 1700000000000\<rparr>,
      requests = []\<rparr>"

definition not_found :: "existing_file response" where
  "not_found = \<lparr>status = 404, json = Inr \<lparr>sha = None, content = None\<rparr>\<rparr>"

definition created :: "error_body response" where
  "created = \<lparr>status = 201, json = Inr \<lparr>error_message = None\<rparr>\<rparr>"

definition unauthorized_read :: "existing_file response" where
  "unauthorized_read = \<lparr>status = 401, json = Inr \<lparr>sha = None, content = None\<rparr>\<rparr>"

definition unauthorized_write :: "error_body response" where
  "unauthorized_write = \<lparr>status = 401, json = Inr \<lparr>error_message = Some (js ''Bad credentials'')\<rparr>\<rparr>"

text \<open>A stored file whose content is the base64 of \<open>print(1)\<close>, with the line feed the API appends.\<close>

definition same_file :: "existing_file response" where
  "same_file =
     \<lparr>status = 200, json = Inr \<lparr>sha = Some (js ''abc123''), content = Some (js ''cHJpbnQoMSk='' @ [0x0A])\<rparr>\<rparr>"

text \<open>A stored file with other content (the base64 of \<open>print(2)\<close>).\<close>

definition other_file :: "existing_file response" where
  "other_file =
     \<lparr>status = 200, json = Inr \<lparr>sha = Some (js ''abc123''), content = Some (js ''cHJpbnQoMik='' @ [0x0A])\<rparr>\<rparr>"

definition user_octo :: GitHubUser where
  "user_octo = \<lparr>login = js ''octo'', avatar_url = js ''https://avatars.example/u/1'', user_id = 1\<rparr>"

text \<open>A host where nothing rejects and every identity request answers 200.\<close>

definition host :: "int \<Rightarrow> auth_env" where
  "host now =
     \<lparr>storage_get_rejects = None, now_read = now, verify_fetch = Inr \<lparr>status = 200, json = Inr ()\<rparr>,
      storage_set_rejects = None, now_refresh = now + 1,
      user_fetch = Inr \<lparr>status = 200, json = Inr user_octo\<rparr>\<rparr>"

text \<open>The state at startup with a credential created at the given time.\<close>

definition startup :: "int option \<Rightarrow> state" where
  "startup createdAt =
     \<lparr>githubToken = None, githubUser = None, authLoading = True, authError = None,
      selectedRepo = None, latestSubmission = None,
      pushLoading = False, pushError = None, pushSuccess = False,
      storage = \<lparr>stored_githubToken = Some (js ''gho_1''), stored_tokenCreatedAt = createdAt\<rparr>,
      requests = []\<rparr>"

text \<open>A remote side that answers the read and the write with the given responses.\<close>

definition remote :: "existing_file response \<Rightarrow> error_body response \<Rightarrow> push_env" where
  "remote r w = \<lparr>read_fetch = Inr r, write_fetch = Inr w\<rparr>"

text \<open>The Two Sum submission with the language name \<open>constructor\<close>.\<close>

definition constructor_submission :: SubmissionData where
  "constructor_submission = two_sum\<lparr>language := js ''constructor''\<rparr>"

text \<open>A session that lost its token after a push that failed with \<open>Not Found\<close>.\<close>

definition stale_flags :: state where
  "stale_flags = ready\<lparr>githubToken := None, pushError := Some (js ''Not Found'')\<rparr>"

text \<open>A session that still holds a token and an old error while the store holds none.\<close>

definition signed_out :: state where
  "signed_out =
     \<lparr>githubToken = Some (js ''gho_1''), githubUser = Some user_octo, authLoading = True,
      authError = Some (js ''Failed to check authentication status''),
      selectedRepo = None, latestSubmission = None,
      pushLoading = False, pushError = None, pushSuccess = False,
      storage = \<lparr>stored_githubToken = None, stored_tokenCreatedAt = None\<rparr>,
      requests = []\<rparr>"

section \<open>Base64\<close>


lemma b64code_less: "b64code n < 128"
  by (auto simp: b64code_def)

lemma unat_b64char: "unat (b64char n) = b64code n"
proof -
  have "b64code n < 2 ^ 16" using b64code_less [of n] by simp
  then show ?thesis by (simp add: b64char_def unat_of_nat)
qed

lemma b64val_unat:
  "b64val c =
     (let k = unat c in
      if 65 \<le> k \<and> k \<le> 90 then Some (k - 65)
      else if 97 \<le> k \<and> k \<le> 122 then Some (k - 97 + 26)
      else if 48 \<le> k \<and> k \<le> 57 then Some (k - 48 + 52)
      else if k = 43 then Some 62
      else if k = 47 then Some 63
      else None)"
  by (simp add: b64val_def word_le_nat_alt word_unat_eq_iff Let_def)

lemma b64val_b64char: "n < 64 \<Longrightarrow> b64val (b64char n) = Some n"
  by (auto simp: b64val_unat Let_def unat_b64char b64code_def)

lemma b64char_not_pad: "n < 64 \<Longrightarrow> b64char n \<noteq> 0x3D"
  by (auto simp: word_unat_eq_iff unat_b64char b64code_def)

lemma regroup1: fixes a b :: nat assumes "b < 256"
  shows "a div 4 * 4 + (a mod 4 * 16 + b div 16) div 16 = a"
proof -
  have "b div 16 < 16" using assms by simp
  then have "(a mod 4 * 16 + b div 16) div 16 = a mod 4" by simp
  then show ?thesis by simp
qed

lemma regroup2: fixes a b c :: nat assumes "b < 256" "c < 256"
  shows "(a mod 4 * 16 + b div 16) mod 16 * 16 + (b mod 16 * 4 + c div 64) div 4 = b"
proof -
  have "b div 16 < 16" using assms by simp
  then have 1: "(a mod 4 * 16 + b div 16) mod 16 = b div 16" by simp
  have "c div 64 < 4" using assms by simp
  then have 2: "(b mod 16 * 4 + c div 64) div 4 = b mod 16" by simp
  show ?thesis unfolding 1 2 by simp
qed

lemma regroup3: fixes b c :: nat assumes "c < 256"
  shows "(b mod 16 * 4 + c div 64) mod 4 * 64 + c mod 64 = c"
proof -
  have "c div 64 < 4" using assms by simp
  then have "(b mod 16 * 4 + c div 64) mod 4 = c div 64" by simp
  then show ?thesis by simp
qed

lemma regroup4: fixes a b :: nat assumes "b < 256"
  shows "(a mod 4 * 16 + b div 16) mod 16 * 16 + (b mod 16 * 4) div 4 = b"
proof -
  have "b div 16 < 16" using assms by simp
  then have 1: "(a mod 4 * 16 + b div 16) mod 16 = b div 16" by simp
  show ?thesis unfolding 1 by simp
qed

lemma regroup5: fixes a :: nat shows "a div 4 * 4 + (a mod 4 * 16) div 16 = a"
  by simp

lemma sextets: fixes a b c :: nat
  assumes "a < 256" "b < 256" "c < 256"
  shows "a div 4 < 64" "a mod 4 * 16 + b div 16 < 64" "b mod 16 * 4 + c div 64 < 64"
    "c mod 64 < 64" "a mod 4 * 16 < 64" "b mod 16 * 4 < 64"
  using assms by auto

lemma b64_roundtrip: "list_all (\<lambda>b. b < 256) bs \<Longrightarrow> b64decode (b64encode bs) = Some bs"
proof (induction bs rule: b64encode.induct)
  case (1 a b c r)
  then have lt: "a < 256" "b < 256" "c < 256" and IH: "b64decode (b64encode r) = Some r"
    by simp_all
  define p q t u where "p = a div 4" and "q = a mod 4 * 16 + b div 16"
    and "t = b mod 16 * 4 + c div 64" and "u = c mod 64"
  have bound: "p < 64" "q < 64" "t < 64" "u < 64"
    using sextets [OF lt] by (simp_all add: p_def q_def t_def u_def)
  have orig: "p * 4 + q div 16 = a" "q mod 16 * 16 + t div 4 = b" "t mod 4 * 64 + u = c"
    unfolding p_def q_def t_def u_def
    by (rule regroup1 [OF lt(2)], rule regroup2 [OF lt(2,3)], rule regroup3 [OF lt(3)])
  have enc: "b64encode (a # b # c # r) = b64char p # b64char q # b64char t # b64char u # b64encode r"
    by (simp add: p_def q_def t_def u_def)
  show ?case
    unfolding enc using orig by (simp add: b64val_b64char b64char_not_pad bound IH)
next
  case (2 a b)
  then have lt: "a < 256" "b < 256" by simp_all
  define p q t where "p = a div 4" and "q = a mod 4 * 16 + b div 16" and "t = b mod 16 * 4"
  have bound: "p < 64" "q < 64" "t < 64"
    using sextets [OF lt lt(2)] by (simp_all add: p_def q_def t_def)
  have orig: "p * 4 + q div 16 = a" "q mod 16 * 16 + t div 4 = b"
    unfolding p_def q_def t_def
    by (rule regroup1 [OF lt(2)], rule regroup4 [OF lt(2)])
  have enc: "b64encode [a, b] = [b64char p, b64char q, b64char t, 0x3D]"
    by (simp add: p_def q_def t_def)
  show ?case
    unfolding enc using orig by (simp add: b64val_b64char b64char_not_pad bound)
next
  case (3 a)
  then have lt: "a < 256" by simp
  define p q where "p = a div 4" and "q = a mod 4 * 16"
  have bound: "p < 64" "q < 64"
    using sextets [OF lt lt lt] by (simp_all add: p_def q_def)
  have orig: "p * 4 + q div 16 = a"
    unfolding p_def q_def by (rule regroup5)
  have enc: "b64encode [a] = [b64char p, b64char q, 0x3D, 0x3D]"
    by (simp add: p_def q_def)
  show ?case
    unfolding enc using orig by (simp add: b64val_b64char b64char_not_pad bound)
next
  case 4
  show ?case by simp
qed

lemma btoa_roundtrip:
  assumes "btoa s = Inr e"
  shows "b64decode e = Some (map unat s)"
proof -
  from assms have units: "list_all (\<lambda>c. c \<le> 0xFF) s" and e: "e = b64encode (map unat s)"
    by (auto simp: btoa_def split: if_splits)
  have "list_all (\<lambda>b. b < 256) (map unat s)"
    using units by (induction s) (auto simp: word_le_nat_alt)
  then show ?thesis unfolding e by (rule b64_roundtrip)
qed

section \<open>The auth store: theorems\<close>

lemma requests_fetchUserInfo:
  "requests (fetchUserInfo env token st) = requests st @ [identity_request FetchUserInfo token]"
  by (simp add: fetchUserInfo_def Let_def split: sum.splits)

lemma requests_verifyToken:
  "requests (snd (verifyToken env token st)) = requests st @ [identity_request VerifyToken token]"
  by (simp add: verifyToken_def Let_def split: sum.splits)

lemma requests_handleInvalidToken: "requests (handleInvalidToken st) = requests st"
  by (simp add: handleInvalidToken_def)

text \<open>The requests of the \<open>try\<close> block, by the branch taken.\<close>

lemma requests_try:
  "requests (snd (checkAuthStatus_try env st)) =
     requests st @
     (if storage_get_rejects env \<noteq> None \<or> \<not> truthy (stored_githubToken (storage st)) then []
      else if needsRevalidation (now_read env) (stored_tokenCreatedAt (storage st)) then
        identity_request VerifyToken (the (stored_githubToken (storage st))) #
          (if fst (verifyToken env (the (stored_githubToken (storage st))) st)
              \<and> storage_set_rejects env = None
           then [identity_request FetchUserInfo (the (stored_githubToken (storage st)))] else [])
      else [identity_request FetchUserInfo (the (stored_githubToken (storage st)))])"
proof (cases "verifyToken env (the (stored_githubToken (storage st))) st")
  case (Pair isValid st1)
  then have r1: "requests st1 =
      requests st @ [identity_request VerifyToken (the (stored_githubToken (storage st)))]"
    using requests_verifyToken [of env "the (stored_githubToken (storage st))" st] by simp
  show ?thesis
    by (simp add: checkAuthStatus_try_def Let_def Pair r1 requests_fetchUserInfo
        requests_handleInvalidToken split: option.splits)
qed

lemma requests_checkAuthStatus:
  "requests (checkAuthStatus env st) =
     requests (snd (checkAuthStatus_try env (st\<lparr>authLoading := True, authError := None\<rparr>)))"
  by (simp add: checkAuthStatus_def split: prod.splits sum.splits)

lemma calls_fresh:
  assumes "storage_get_rejects env = None"
    and "truthy (stored_githubToken (storage st))"
    and "\<not> needsRevalidation (now_read env) (stored_tokenCreatedAt (storage st))"
  shows "checkAuthStatus_calls env st =
           [identity_request FetchUserInfo (the (stored_githubToken (storage st)))]"
  using assms by (simp add: checkAuthStatus_calls_def requests_checkAuthStatus requests_try)

lemma revalidated_iff_needs:
  assumes "storage_get_rejects env = None"
    and "truthy (stored_githubToken (storage st))"
  shows "VerifyToken \<in> site ` set (checkAuthStatus_calls env st) \<longleftrightarrow>
           needsRevalidation (now_read env) (stored_tokenCreatedAt (storage st))"
  using assms
  by (simp add: checkAuthStatus_calls_def requests_checkAuthStatus requests_try identity_request_def)

lemma needsRevalidation_clock:
  assumes "TOKEN_REVALIDATION_MS < now"
  shows "needsRevalidation now createdAt \<longleftrightarrow>
           (case createdAt of None \<Rightarrow> True | Some t \<Rightarrow> now - t > TOKEN_REVALIDATION_MS)"
  using assms by (auto simp: needsRevalidation_def Let_def split: option.splits)

text \<open>
  C3. With a token in the store and a clock later than seven days after the epoch,
  \<open>checkAuthStatus\<close> sends the \<open>verifyToken\<close> request exactly when the creation time is
  missing or more than seven days old: at seven days and one millisecond it does, one
  millisecond short of seven days it does not.
\<close>

theorem revalidation_exactly_when_missing_or_stale:
  assumes "storage_get_rejects env = None"
    and "truthy (stored_githubToken (storage st))"
    and "TOKEN_REVALIDATION_MS < now_read env"
  shows "(VerifyToken \<in> site ` set (checkAuthStatus_calls env st) \<longleftrightarrow>
            (case stored_tokenCreatedAt (storage st) of
               None \<Rightarrow> True
             | Some createdAt \<Rightarrow> now_read env - createdAt > TOKEN_REVALIDATION_MS))
       \<and> (stored_tokenCreatedAt (storage st) = Some (now_read env - TOKEN_REVALIDATION_MS - 1)
            \<longrightarrow> VerifyToken \<in> site ` set (checkAuthStatus_calls env st))
       \<and> (stored_tokenCreatedAt (storage st) = Some (now_read env - TOKEN_REVALIDATION_MS + 1)
            \<longrightarrow> VerifyToken \<notin> site ` set (checkAuthStatus_calls env st))"
proof -
  have main: "VerifyToken \<in> site ` set (checkAuthStatus_calls env st) \<longleftrightarrow>
      (case stored_tokenCreatedAt (storage st) of
         None \<Rightarrow> True
       | Some createdAt \<Rightarrow> now_read env - createdAt > TOKEN_REVALIDATION_MS)"
    using revalidated_iff_needs [OF assms(1,2)] needsRevalidation_clock [OF assms(3)] by simp
  show ?thesis
    unfolding main by simp
qed

lemma storage_startup: "storage (startup c) = \<lparr>stored_githubToken = Some (js ''gho_1''), stored_tokenCreatedAt = c\<rparr>"
  by (simp add: startup_def)

theorem revalidation_exactly_when_missing_or_stale_witness:
  "VerifyToken \<in> site ` set (checkAuthStatus_calls (host 1700000000000) (startup None))
   \<and> VerifyToken \<in> site ` set (checkAuthStatus_calls (host 1700000000000) (startup (Some 1699395199999)))
   \<and> VerifyToken \<notin> site ` set (checkAuthStatus_calls (host 1700000000000) (startup (Some 1699395200001)))"
proof -
  have env: "storage_get_rejects (host 1700000000000) = None"
    "TOKEN_REVALIDATION_MS < now_read (host 1700000000000)"
    by (simp_all add: host_def TOKEN_REVALIDATION_MS_def)
  have tok: "truthy (stored_githubToken (storage (startup c)))" for c
    by (simp add: storage_startup truthy_def js_def)
  show ?thesis
    using revalidation_exactly_when_missing_or_stale [OF env(1) tok env(2), of None]
      revalidation_exactly_when_missing_or_stale [OF env(1) tok env(2), of "Some 1699395199999"]
      revalidation_exactly_when_missing_or_stale [OF env(1) tok env(2), of "Some 1699395200001"]
    by (simp add: storage_startup host_def TOKEN_REVALIDATION_MS_def)
qed


lemma fetchUserInfo_keeps:
  "githubToken (fetchUserInfo env token st) = githubToken st"
  "storage (fetchUserInfo env token st) = storage st"
  "authError (fetchUserInfo env token st) = authError st"
  "authLoading (fetchUserInfo env token st) = authLoading st"
  by (simp_all add: fetchUserInfo_def Let_def split: sum.splits)

lemma checkAuthStatus_fresh:
  assumes "storage_get_rejects env = None"
    and "truthy (stored_githubToken (storage st))"
    and "\<not> needsRevalidation (now_read env) (stored_tokenCreatedAt (storage st))"
  shows "checkAuthStatus env st =
           (fetchUserInfo env (the (stored_githubToken (storage st)))
              (st\<lparr>authLoading := True, authError := None,
                  githubToken := stored_githubToken (storage st)\<rparr>))\<lparr>authLoading := False\<rparr>"
  using assms by (simp add: checkAuthStatus_def checkAuthStatus_try_def Let_def)

text \<open>
  C8, as the code has it. With a token in the store that is within the seven-day window
  (and a clock later than seven days after the epoch), \<open>checkAuthStatus\<close> puts the token
  in the session, sends no \<open>verifyToken\<close> request and leaves the persistent store as it
  was; it does send one request, the profile fetch of \<open>fetchUserInfo\<close>.
\<close>

theorem fresh_token_exposed_with_profile_fetch_only:
  assumes "storage_get_rejects env = None"
    and "stored_githubToken (storage st) = Some token" and "token \<noteq> []"
    and "stored_tokenCreatedAt (storage st) = Some createdAt"
    and "now_read env - createdAt \<le> TOKEN_REVALIDATION_MS"
    and "TOKEN_REVALIDATION_MS < now_read env"
  shows "githubToken (checkAuthStatus env st) = Some token
       \<and> checkAuthStatus_calls env st = [identity_request FetchUserInfo token]
       \<and> VerifyToken \<notin> site ` set (checkAuthStatus_calls env st)
       \<and> storage (checkAuthStatus env st) = storage st
       \<and> authError (checkAuthStatus env st) = None
       \<and> \<not> authLoading (checkAuthStatus env st)"
proof -
  have tok: "truthy (stored_githubToken (storage st))"
    using assms(2,3) by (simp add: truthy_def)
  have fresh: "\<not> needsRevalidation (now_read env) (stored_tokenCreatedAt (storage st))"
    using assms(4,5,6) by (simp add: needsRevalidation_clock)
  show ?thesis
    using calls_fresh [OF assms(1) tok fresh] assms(2)
    by (simp add: checkAuthStatus_fresh [OF assms(1) tok fresh] fetchUserInfo_keeps
        identity_request_def)
qed

theorem fresh_token_exposed_with_profile_fetch_only_witness:
  "githubToken (checkAuthStatus (host 1700000000000) (startup (Some 1699999999000))) = Some (js ''gho_1'')
   \<and> checkAuthStatus_calls (host 1700000000000) (startup (Some 1699999999000))
       = [identity_request FetchUserInfo (js ''gho_1'')]
   \<and> storage (checkAuthStatus (host 1700000000000) (startup (Some 1699999999000)))
       = storage (startup (Some 1699999999000))"
proof -
  have h: "storage_get_rejects (host 1700000000000) = None"
    "stored_githubToken (storage (startup (Some 1699999999000))) = Some (js ''gho_1'')"
    "js ''gho_1'' \<noteq> []"
    "stored_tokenCreatedAt (storage (startup (Some 1699999999000))) = Some 1699999999000"
    "now_read (host 1700000000000) - 1699999999000 \<le> TOKEN_REVALIDATION_MS"
    "TOKEN_REVALIDATION_MS < now_read (host 1700000000000)"
    by (simp_all add: host_def storage_startup TOKEN_REVALIDATION_MS_def js_def)
  show ?thesis
    using fresh_token_exposed_with_profile_fetch_only [OF h] by simp
qed

text \<open>
  C8 as the spec has it fails: at startup with a credential created one second ago, the
  run sends a request.
\<close>

theorem fresh_token_no_remote_call_counterexample:
  "stored_githubToken (storage (startup (Some 1699999999000))) = Some (js ''gho_1'')
   \<and> now_read (host 1700000000000) - 1699999999000 \<le> TOKEN_REVALIDATION_MS
   \<and> checkAuthStatus_calls (host 1700000000000) (startup (Some 1699999999000))
       = [identity_request FetchUserInfo (js ''gho_1'')]
   \<and> checkAuthStatus_calls (host 1700000000000) (startup (Some 1699999999000)) \<noteq> []"
proof -
  have h: "storage_get_rejects (host 1700000000000) = None"
    "truthy (stored_githubToken (storage (startup (Some 1699999999000))))"
    "\<not> needsRevalidation (now_read (host 1700000000000))
         (stored_tokenCreatedAt (storage (startup (Some 1699999999000))))"
    by (simp_all add: host_def storage_startup TOKEN_REVALIDATION_MS_def js_def truthy_def
        needsRevalidation_def)
  show ?thesis
    using calls_fresh [OF h]
    by (simp add: host_def storage_startup TOKEN_REVALIDATION_MS_def)
qed

text \<open>
  C10. When the read of the store succeeds and finds no token, \<open>checkAuthStatus\<close> sends
  nothing and changes nothing but the two flags it always writes: the session token, the
  profile and the store are as before, no error is set, and the loading flag is off.
\<close>

theorem no_stored_token_leaves_session:
  assumes "storage_get_rejects env = None"
    and "\<not> truthy (stored_githubToken (storage st))"
  shows "checkAuthStatus env st = st\<lparr>authLoading := False, authError := None\<rparr>
       \<and> githubToken (checkAuthStatus env st) = githubToken st
       \<and> githubUser (checkAuthStatus env st) = githubUser st
       \<and> authError (checkAuthStatus env st) = None
       \<and> \<not> authLoading (checkAuthStatus env st)
       \<and> checkAuthStatus_calls env st = []"
proof -
  have run: "checkAuthStatus env st = st\<lparr>authLoading := False, authError := None\<rparr>"
    using assms by (simp add: checkAuthStatus_def checkAuthStatus_try_def Let_def)
  show ?thesis
    by (simp add: run checkAuthStatus_calls_def)
qed

theorem no_stored_token_leaves_session_witness:
  "checkAuthStatus (host 1700000000000) signed_out = signed_out\<lparr>authLoading := False, authError := None\<rparr>
   \<and> githubToken (checkAuthStatus (host 1700000000000) signed_out) = Some (js ''gho_1'')
   \<and> checkAuthStatus_calls (host 1700000000000) signed_out = []"
proof -
  have h: "storage_get_rejects (host 1700000000000) = None"
    "\<not> truthy (stored_githubToken (storage signed_out))"
    by (simp_all add: host_def signed_out_def truthy_def)
  show ?thesis
    using no_stored_token_leaves_session [OF h] by (simp add: signed_out_def)
qed

section \<open>The push store: theorems\<close>

lemma handleInvalidToken_fields:
  "githubToken (handleInvalidToken st) = None"
  "githubUser (handleInvalidToken st) = None"
  "stored_githubToken (storage (handleInvalidToken st)) = None"
  "stored_tokenCreatedAt (storage (handleInvalidToken st)) = None"
  "pushLoading (handleInvalidToken st) = pushLoading st"
  "pushError (handleInvalidToken st) = pushError st"
  "pushSuccess (handleInvalidToken st) = pushSuccess st"
  by (simp_all add: handleInvalidToken_def clearAuth_def)

text \<open>What the second half of the \<open>try\<close> block returns and sends.\<close>

lemma push_write_cases:
  "push_write env cm token repo sub sha_opt st =
     (case btoa (code sub) of
        Inl error \<Rightarrow> (Inl error, st)
      | Inr encoded \<Rightarrow>
          (case write_fetch env of
             Inl error \<Rightarrow> (Inl error,
               st\<lparr>requests := requests st @ [write_request token repo sub (commit_message cm sub) encoded sha_opt]\<rparr>)
           | Inr response \<Rightarrow>
               if status response = 401 then
                 (Inl (Error session_expired), handleInvalidToken
                    (st\<lparr>requests := requests st @ [write_request token repo sub (commit_message cm sub) encoded sha_opt]\<rparr>))
               else if ok response then
                 (Inr True, st\<lparr>requests := requests st @ [write_request token repo sub (commit_message cm sub) encoded sha_opt],
                               pushSuccess := True\<rparr>)
               else
                 (Inl (case json response of Inl error \<Rightarrow> error
                       | Inr error \<Rightarrow> Error (if truthy (error_message error) then the (error_message error)
                                    else js ''Failed to push to GitHub'')),
                  st\<lparr>requests := requests st @ [write_request token repo sub (commit_message cm sub) encoded sha_opt]\<rparr>)))"
  by (simp add: push_write_def Let_def split: sum.splits)

lemma requests_push_write:
  "requests (snd (push_write env cm token repo sub sha_opt st)) =
     requests st @
     (case btoa (code sub) of
        Inl error \<Rightarrow> []
      | Inr encoded \<Rightarrow> [write_request token repo sub (commit_message cm sub) encoded sha_opt])"
  by (simp add: push_write_cases requests_handleInvalidToken split: sum.splits)

lemma push_write_flags:
  "pushLoading (snd (push_write env cm token repo sub sha_opt st)) = pushLoading st"
  "pushError (snd (push_write env cm token repo sub sha_opt st)) = pushError st"
  "pushSuccess (snd (push_write env cm token repo sub sha_opt st)) =
     (pushSuccess st \<or> fst (push_write env cm token repo sub sha_opt st) = Inr True)"
  "fst (push_write env cm token repo sub sha_opt st) \<noteq> Inr False"
  by (simp_all add: push_write_cases handleInvalidToken_fields split: sum.splits)


text \<open>What the \<open>try\<close> block sends: the read, then at most one write.\<close>

lemma requests_push_try:
  "requests (snd (push_try env cm token repo sub st)) =
     requests st @ read_request token repo sub #
     (case read_fetch env of
        Inl error \<Rightarrow> []
      | Inr r \<Rightarrow>
          if status r = 401 then []
          else if ok r then
            (case json r of
               Inl error \<Rightarrow> []
             | Inr existing \<Rightarrow>
                 (case btoa (code sub) of
                    Inl error \<Rightarrow> []
                  | Inr encoded \<Rightarrow>
                      if strip_newlines (content existing) = Some encoded then []
                      else [write_request token repo sub (commit_message cm sub) encoded (sha existing)]))
          else
            (case btoa (code sub) of
               Inl error \<Rightarrow> []
             | Inr encoded \<Rightarrow> [write_request token repo sub (commit_message cm sub) encoded None]))"
  by (simp add: push_try_def Let_def requests_push_write requests_handleInvalidToken
      split: sum.splits)

lemma push_try_flags:
  "pushLoading (snd (push_try env cm token repo sub st)) = pushLoading st"
  "pushError (snd (push_try env cm token repo sub st)) = pushError st"
  by (simp_all add: push_try_def Let_def push_write_flags handleInvalidToken_fields
      split: sum.splits)

lemma push_try_success:
  "\<not> pushSuccess st \<Longrightarrow>
     pushSuccess (snd (push_try env cm token repo sub st)) =
       (case fst (push_try env cm token repo sub st) of Inl error \<Rightarrow> False | Inr written \<Rightarrow> True)"
proof -
  assume off: "\<not> pushSuccess st"
  have w: "pushSuccess (snd (push_write env cm token repo sub sha_opt s)) =
      (case fst (push_write env cm token repo sub sha_opt s) of Inl error \<Rightarrow> False | Inr written \<Rightarrow> True)"
    if "\<not> pushSuccess s" for sha_opt s
    using that by (simp add: push_write_cases handleInvalidToken_fields split: sum.splits)
  show ?thesis
    using off by (simp add: push_try_def Let_def w handleInvalidToken_fields split: sum.splits)
qed

text \<open>A run that passes the three guards, in terms of its \<open>try\<close> block.\<close>

lemma pushToGitHub_guarded:
  assumes "githubToken st = Some token" "token \<noteq> []"
    and "selectedRepo st = Some repo" "repo \<noteq> []"
    and "latestSubmission st = Some sub"
  shows "pushToGitHub env cm st =
           (case push_try env cm token repo sub (push_entry st) of
              (Inl error, st1) \<Rightarrow>
                (Inl error,
                 st1\<lparr>pushError := Some (case error of Error m \<Rightarrow> m | NonError \<Rightarrow> js ''Failed to push''),
                     pushLoading := False\<rparr>)
            | (Inr written, st1) \<Rightarrow> (Inr written, st1\<lparr>pushLoading := False\<rparr>))"
  using assms by (simp add: pushToGitHub_def truthy_def)

lemma fst_pushToGitHub:
  assumes "githubToken st = Some token" "token \<noteq> []"
    and "selectedRepo st = Some repo" "repo \<noteq> []"
    and "latestSubmission st = Some sub"
  shows "fst (pushToGitHub env cm st) = fst (push_try env cm token repo sub (push_entry st))"
  by (simp add: pushToGitHub_guarded [OF assms] split: prod.splits sum.splits)

lemma requests_pushToGitHub:
  assumes "githubToken st = Some token" "token \<noteq> []"
    and "selectedRepo st = Some repo" "repo \<noteq> []"
    and "latestSubmission st = Some sub"
  shows "requests (snd (pushToGitHub env cm st)) =
           requests (snd (push_try env cm token repo sub (push_entry st)))"
  by (simp add: pushToGitHub_guarded [OF assms] split: prod.splits sum.splits)

lemma push_calls_guarded:
  assumes "githubToken st = Some token" "token \<noteq> []"
    and "selectedRepo st = Some repo" "repo \<noteq> []"
    and "latestSubmission st = Some sub"
  shows "push_calls env cm st =
     read_request token repo sub #
     (case read_fetch env of
        Inl error \<Rightarrow> []
      | Inr r \<Rightarrow>
          if status r = 401 then []
          else if ok r then
            (case json r of
               Inl error \<Rightarrow> []
             | Inr existing \<Rightarrow>
                 (case btoa (code sub) of
                    Inl error \<Rightarrow> []
                  | Inr encoded \<Rightarrow>
                      if strip_newlines (content existing) = Some encoded then []
                      else [write_request token repo sub (commit_message cm sub) encoded (sha existing)]))
          else
            (case btoa (code sub) of
               Inl error \<Rightarrow> []
             | Inr encoded \<Rightarrow> [write_request token repo sub (commit_message cm sub) encoded None]))"
  by (simp add: push_calls_def requests_pushToGitHub [OF assms] requests_push_try push_entry_def)

lemma site_requests [simp]:
  "site (read_request token repo sub) = PushRead"
  "site (write_request token repo sub msg encoded sha_opt) = PushWrite"
  by (simp_all add: read_request_def write_request_def)

lemma write_calls_guarded:
  assumes "githubToken st = Some token" "token \<noteq> []"
    and "selectedRepo st = Some repo" "repo \<noteq> []"
    and "latestSubmission st = Some sub"
  shows "write_calls env cm st = tl (push_calls env cm st)"
  by (simp add: write_calls_def push_calls_guarded [OF assms] split: sum.splits)

text \<open>
  C5. The guards run in the order token, repository, submission; each throws its own
  error, and does so with the state, and so the request log, as it was.
\<close>

theorem preconditions_checked_in_order:
  "(\<not> truthy (githubToken st) \<longrightarrow>
      pushToGitHub env cm st = (Inl (Error (js ''Not authenticated'')), st))
   \<and> (truthy (githubToken st) \<and> \<not> truthy (selectedRepo st) \<longrightarrow>
      pushToGitHub env cm st = (Inl (Error (js ''No repository selected'')), st))
   \<and> (truthy (githubToken st) \<and> truthy (selectedRepo st) \<and> latestSubmission st = None \<longrightarrow>
      pushToGitHub env cm st = (Inl (Error (js ''No submission to push'')), st))
   \<and> (\<not> truthy (githubToken st) \<or> \<not> truthy (selectedRepo st) \<or> latestSubmission st = None \<longrightarrow>
      push_calls env cm st = [])
   \<and> distinct [js ''Not authenticated'', js ''No repository selected'', js ''No submission to push'']"
proof -
  have no_token: "pushToGitHub env cm st = (Inl (Error (js ''Not authenticated'')), st)"
    if "\<not> truthy (githubToken st)"
    using that by (simp add: pushToGitHub_def)
  have no_repo: "pushToGitHub env cm st = (Inl (Error (js ''No repository selected'')), st)"
    if "truthy (githubToken st)" "\<not> truthy (selectedRepo st)"
    using that by (simp add: pushToGitHub_def)
  have no_submission: "pushToGitHub env cm st = (Inl (Error (js ''No submission to push'')), st)"
    if "truthy (githubToken st)" "truthy (selectedRepo st)" "latestSubmission st = None"
    using that by (simp add: pushToGitHub_def)
  have nothing_sent: "push_calls env cm st = []"
    if "\<not> truthy (githubToken st) \<or> \<not> truthy (selectedRepo st) \<or> latestSubmission st = None"
  proof -
    from that have "snd (pushToGitHub env cm st) = st"
      using no_token no_repo no_submission by (metis snd_conv)
    then show ?thesis by (simp add: push_calls_def)
  qed
  have messages: "distinct [js ''Not authenticated'', js ''No repository selected'',
      js ''No submission to push'']"
    by (simp add: js_def)
  show ?thesis
    using no_token no_repo no_submission nothing_sent messages by blast
qed

theorem preconditions_checked_in_order_witness:
  "pushToGitHub (remote not_found created) None (ready\<lparr>githubToken := None, selectedRepo := None, latestSubmission := None\<rparr>)
     = (Inl (Error (js ''Not authenticated'')), ready\<lparr>githubToken := None, selectedRepo := None, latestSubmission := None\<rparr>)
   \<and> pushToGitHub (remote not_found created) None (ready\<lparr>selectedRepo := None, latestSubmission := None\<rparr>)
     = (Inl (Error (js ''No repository selected'')), ready\<lparr>selectedRepo := None, latestSubmission := None\<rparr>)
   \<and> pushToGitHub (remote not_found created) None (ready\<lparr>latestSubmission := None\<rparr>)
     = (Inl (Error (js ''No submission to push'')), ready\<lparr>latestSubmission := None\<rparr>)
   \<and> push_calls (remote not_found created) None (ready\<lparr>latestSubmission := None\<rparr>) = []"
  using preconditions_checked_in_order [of "ready\<lparr>githubToken := None, selectedRepo := None, latestSubmission := None\<rparr>" "remote not_found created" None]
    preconditions_checked_in_order [of "ready\<lparr>selectedRepo := None, latestSubmission := None\<rparr>" "remote not_found created" None]
    preconditions_checked_in_order [of "ready\<lparr>latestSubmission := None\<rparr>" "remote not_found created" None]
  by (simp add: ready_def truthy_def js_def)


lemma push_try_read_unauthorized:
  assumes "read_fetch env = Inr r" "status r = 401"
  shows "push_try env cm token repo sub st =
           (Inl (Error session_expired),
            handleInvalidToken (st\<lparr>requests := requests st @ [read_request token repo sub]\<rparr>))"
  using assms by (simp add: push_try_def Let_def)

text \<open>When the \<open>try\<close> block sends the write, it ends as \<open>push_write\<close> ends.\<close>

lemma push_try_write_sent:
  assumes "requests (snd (push_try env cm token repo sub st))
             \<noteq> requests st @ [read_request token repo sub]"
  obtains r encoded sha_opt where
    "read_fetch env = Inr r" "status r \<noteq> 401" "btoa (code sub) = Inr encoded"
    "ok r \<Longrightarrow> \<exists>existing. json r = Inr existing \<and> sha_opt = sha existing
               \<and> strip_newlines (content existing) \<noteq> Some encoded"
    "\<not> ok r \<Longrightarrow> sha_opt = None"
    "push_try env cm token repo sub st =
       push_write env cm token repo sub sha_opt
         (st\<lparr>requests := requests st @ [read_request token repo sub]\<rparr>)"
proof (cases "read_fetch env")
  case (Inl error)
  with assms show ?thesis by (simp add: requests_push_try)
next
  case (Inr r)
  note r = this
  from assms r have s: "status r \<noteq> 401"
    by (auto simp: requests_push_try)
  from assms r s obtain encoded where e: "btoa (code sub) = Inr encoded"
    by (cases "btoa (code sub)") (auto simp: requests_push_try split: sum.splits)
  show ?thesis
  proof (cases "ok r")
    case True
    with assms r s e obtain existing where x: "json r = Inr existing"
      "strip_newlines (content existing) \<noteq> Some encoded"
      by (cases "json r") (auto simp: requests_push_try split: if_splits)
    show ?thesis
      by (rule that [of r encoded "sha existing"])
        (use r s e x True in \<open>simp_all add: push_try_def Let_def\<close>)
  next
    case False
    show ?thesis
      by (rule that [of r encoded None])
        (use r s e False in \<open>simp_all add: push_try_def Let_def\<close>)
  qed
qed

lemma push_write_unauthorized:
  assumes "btoa (code sub) = Inr encoded" "write_fetch env = Inr w" "status w = 401"
  shows "push_write env cm token repo sub sha_opt st =
           (Inl (Error session_expired),
            handleInvalidToken
              (st\<lparr>requests := requests st
                   @ [write_request token repo sub (commit_message cm sub) encoded sha_opt]\<rparr>))"
  using assms by (simp add: push_write_cases)


text \<open>A guarded run whose \<open>try\<close> block throws the session-expired error after invalidation.\<close>

lemma pushToGitHub_session_expired:
  assumes guards: "githubToken st = Some token" "token \<noteq> []"
      "selectedRepo st = Some repo" "repo \<noteq> []" "latestSubmission st = Some sub"
    and run: "push_try env cm token repo sub (push_entry st) =
                (Inl (Error session_expired), handleInvalidToken st1)"
  shows "fst (pushToGitHub env cm st) = Inl (Error session_expired)
       \<and> githubToken (snd (pushToGitHub env cm st)) = None
       \<and> githubUser (snd (pushToGitHub env cm st)) = None
       \<and> stored_githubToken (storage (snd (pushToGitHub env cm st))) = None
       \<and> stored_tokenCreatedAt (storage (snd (pushToGitHub env cm st))) = None
       \<and> pushError (snd (pushToGitHub env cm st)) = Some session_expired
       \<and> \<not> pushLoading (snd (pushToGitHub env cm st))"
  by (simp add: pushToGitHub_guarded [OF guards] run handleInvalidToken_fields)

text \<open>
  C1. In a push that passes the guards, a 401 on the read, or on a write that was sent,
  clears the persisted credential, sets the session token and profile to null and makes
  the push throw the session-expired error (also shown as the push error, with the
  loading flag off); after a 401 on the read, the read is the only request sent.
\<close>

theorem unauthorized_push_invalidates_session:
  assumes "githubToken st = Some token" "token \<noteq> []"
    and "selectedRepo st = Some repo" "repo \<noteq> []"
    and "latestSubmission st = Some sub"
    and "(\<exists>r. read_fetch env = Inr r \<and> status r = 401)
         \<or> (write_calls env cm st \<noteq> [] \<and> (\<exists>w. write_fetch env = Inr w \<and> status w = 401))"
  shows "fst (pushToGitHub env cm st) = Inl (Error session_expired)
       \<and> githubToken (snd (pushToGitHub env cm st)) = None
       \<and> githubUser (snd (pushToGitHub env cm st)) = None
       \<and> stored_githubToken (storage (snd (pushToGitHub env cm st))) = None
       \<and> stored_tokenCreatedAt (storage (snd (pushToGitHub env cm st))) = None
       \<and> pushError (snd (pushToGitHub env cm st)) = Some session_expired
       \<and> \<not> pushLoading (snd (pushToGitHub env cm st))
       \<and> ((\<exists>r. read_fetch env = Inr r \<and> status r = 401) \<longrightarrow>
            push_calls env cm st = [read_request token repo sub] \<and> write_calls env cm st = [])"
proof -
  note guards = assms(1-5)
  have no_write: "push_calls env cm st = [read_request token repo sub] \<and> write_calls env cm st = []"
    if "read_fetch env = Inr r" "status r = 401" for r
    using that by (simp add: write_calls_guarded [OF guards] push_calls_guarded [OF guards])
  have expired: "\<exists>st1. push_try env cm token repo sub (push_entry st) =
      (Inl (Error session_expired), handleInvalidToken st1)"
    using assms(6)
  proof
    assume "\<exists>r. read_fetch env = Inr r \<and> status r = 401"
    then show ?thesis
      by (auto simp: push_try_read_unauthorized)
  next
    assume a: "write_calls env cm st \<noteq> [] \<and> (\<exists>w. write_fetch env = Inr w \<and> status w = 401)"
    then obtain w where w: "write_fetch env = Inr w" "status w = 401"
      by blast
    from a have "tl (push_calls env cm st) \<noteq> []"
      by (simp add: write_calls_guarded [OF guards])
    then have "requests (snd (push_try env cm token repo sub (push_entry st)))
        \<noteq> requests (push_entry st) @ [read_request token repo sub]"
      by (auto simp: push_calls_def requests_pushToGitHub [OF guards] requests_push_try
          push_entry_def)
    then show ?thesis
    proof (rule push_try_write_sent)
      fix r encoded sha_opt
      assume "btoa (code sub) = Inr encoded"
        and "push_try env cm token repo sub (push_entry st) =
          push_write env cm token repo sub sha_opt
            (push_entry st\<lparr>requests := requests (push_entry st) @ [read_request token repo sub]\<rparr>)"
      then show ?thesis
        by (auto simp: push_write_unauthorized [OF _ w])
    qed
  qed
  then obtain st1 where run: "push_try env cm token repo sub (push_entry st) =
      (Inl (Error session_expired), handleInvalidToken st1)"
    by blast
  show ?thesis
    using pushToGitHub_session_expired [OF guards run] no_write by blast
qed


lemma push_entry_fields:
  "pushLoading (push_entry st)" "pushError (push_entry st) = None" "\<not> pushSuccess (push_entry st)"
  "requests (push_entry st) = requests st"
  by (simp_all add: push_entry_def)

lemma ready_fields:
  "githubToken ready = Some (js ''gho_1'')" "js ''gho_1'' \<noteq> []"
  "selectedRepo ready = Some (js ''octo/solutions'')" "js ''octo/solutions'' \<noteq> []"
  "latestSubmission ready = Some two_sum"
  by (simp_all add: ready_def js_def)

lemma btoa_two_sum: "btoa (code two_sum) = Inr (js ''cHJpbnQoMSk='')"
  by (simp add: two_sum_def btoa_def js_def b64char_def b64code_def)

lemma remote_fields: "read_fetch (remote r w) = Inr r" "write_fetch (remote r w) = Inr w"
  by (simp_all add: remote_def)

theorem unauthorized_push_invalidates_session_witness:
  "fst (pushToGitHub (remote unauthorized_read created) None ready) = Inl (Error session_expired)
   \<and> githubToken (snd (pushToGitHub (remote unauthorized_read created) None ready)) = None
   \<and> stored_githubToken (storage (snd (pushToGitHub (remote unauthorized_read created) None ready))) = None
   \<and> push_calls (remote unauthorized_read created) None ready
       = [read_request (js ''gho_1'') (js ''octo/solutions'') two_sum]
   \<and> fst (pushToGitHub (remote not_found unauthorized_write) None ready) = Inl (Error session_expired)
   \<and> githubToken (snd (pushToGitHub (remote not_found unauthorized_write) None ready)) = None
   \<and> stored_githubToken (storage (snd (pushToGitHub (remote not_found unauthorized_write) None ready))) = None"
proof -
  have rd: "(\<exists>r. read_fetch (remote unauthorized_read created) = Inr r \<and> status r = 401)
      \<or> (write_calls (remote unauthorized_read created) None ready \<noteq> []
          \<and> (\<exists>w. write_fetch (remote unauthorized_read created) = Inr w \<and> status w = 401))"
    by (simp add: remote_fields unauthorized_read_def)
  have "write_calls (remote not_found unauthorized_write) None ready \<noteq> []"
    by (simp add: write_calls_guarded [OF ready_fields] push_calls_guarded [OF ready_fields]
        remote_fields not_found_def ok_def btoa_two_sum)
  then have wr: "(\<exists>r. read_fetch (remote not_found unauthorized_write) = Inr r \<and> status r = 401)
      \<or> (write_calls (remote not_found unauthorized_write) None ready \<noteq> []
          \<and> (\<exists>w. write_fetch (remote not_found unauthorized_write) = Inr w \<and> status w = 401))"
    by (simp add: remote_fields unauthorized_write_def)
  show ?thesis
    using unauthorized_push_invalidates_session [OF ready_fields rd]
      unauthorized_push_invalidates_session [OF ready_fields wr]
    by (simp add: remote_fields unauthorized_read_def)
qed

text \<open>
  C2. In a push that passes the guards, when the read finds a file whose content,
  without its line feeds, is the base64 of the code, the push returns false, sets the
  success flag and no error, and sends the read and nothing else.
\<close>

theorem identical_content_is_not_written:
  assumes "githubToken st = Some token" "token \<noteq> []"
    and "selectedRepo st = Some repo" "repo \<noteq> []"
    and "latestSubmission st = Some sub"
    and "read_fetch env = Inr r" "ok r" "json r = Inr existing"
    and "btoa (code sub) = Inr encoded"
    and "strip_newlines (content existing) = Some encoded"
  shows "fst (pushToGitHub env cm st) = Inr False
       \<and> pushSuccess (snd (pushToGitHub env cm st))
       \<and> pushError (snd (pushToGitHub env cm st)) = None
       \<and> \<not> pushLoading (snd (pushToGitHub env cm st))
       \<and> push_calls env cm st = [read_request token repo sub]
       \<and> write_calls env cm st = []"
proof -
  note guards = assms(1-5)
  have s: "status r \<noteq> 401"
    using assms(7) by (auto simp: ok_def)
  have run: "push_try env cm token repo sub (push_entry st) =
      (Inr False, (push_entry st)\<lparr>requests := requests (push_entry st) @ [read_request token repo sub],
                                   pushSuccess := True\<rparr>)"
    using assms(6-10) s by (simp add: push_try_def Let_def)
  have calls: "push_calls env cm st = [read_request token repo sub]"
    using assms(6-10) s by (simp add: push_calls_guarded [OF guards])
  show ?thesis
    by (simp add: pushToGitHub_guarded [OF guards] run calls write_calls_guarded [OF guards]
        push_entry_fields)
qed

theorem identical_content_is_not_written_witness:
  "fst (pushToGitHub (remote same_file created) None ready) = Inr False
   \<and> pushSuccess (snd (pushToGitHub (remote same_file created) None ready))
   \<and> pushError (snd (pushToGitHub (remote same_file created) None ready)) = None
   \<and> write_calls (remote same_file created) None ready = []"
proof -
  have h: "read_fetch (remote same_file created) = Inr same_file" "ok same_file"
    "json same_file = Inr \<lparr>sha = Some (js ''abc123''), content = Some (js ''cHJpbnQoMSk='' @ [0x0A])\<rparr>"
    by (simp_all add: remote_fields same_file_def ok_def)
  have c: "strip_newlines (content \<lparr>sha = Some (js ''abc123''), content = Some (js ''cHJpbnQoMSk='' @ [0x0A])\<rparr>)
      = Some (js ''cHJpbnQoMSk='')"
    by (simp add: strip_newlines_def js_def)
  show ?thesis
    using identical_content_is_not_written [OF ready_fields h btoa_two_sum c] by simp
qed


lemma body_write_request:
  "body (write_request token repo sub msg encoded sha_opt) =
     Some \<lparr>body_message = msg, body_content = encoded, body_branch = js ''main'',
           body_sha = (if truthy sha_opt then sha_opt else None)\<rparr>"
  by (simp add: write_request_def)

text \<open>
  C4. In a push that passes the guards and sends the write: when the read found a file
  whose body carries a non-empty sha, the body of the write carries that sha; when the
  read was not a success (such as 404), the body of the write has no sha field.
\<close>

theorem write_carries_sha_of_existing_file:
  assumes "githubToken st = Some token" "token \<noteq> []"
    and "selectedRepo st = Some repo" "repo \<noteq> []"
    and "latestSubmission st = Some sub"
    and "write_calls env cm st \<noteq> []"
    and "read_fetch env = Inr r"
  shows "(\<forall>existing s. ok r \<and> json r = Inr existing \<and> sha existing = Some s \<and> s \<noteq> [] \<longrightarrow>
            (\<exists>b. map body (write_calls env cm st) = [Some b] \<and> body_sha b = Some s))
       \<and> (\<not> ok r \<longrightarrow>
            (\<exists>b. map body (write_calls env cm st) = [Some b] \<and> body_sha b = None))"
proof -
  note guards = assms(1-5)
  note calls = write_calls_guarded [OF guards] push_calls_guarded [OF guards]
  have found: "\<exists>b. map body (write_calls env cm st) = [Some b] \<and> body_sha b = Some s"
    if "ok r" "json r = Inr existing" "sha existing = Some s" "s \<noteq> []" for existing s
    using assms(6,7) that
    by (auto simp: calls body_write_request truthy_def split: sum.splits if_splits)
  have absent: "\<exists>b. map body (write_calls env cm st) = [Some b] \<and> body_sha b = None"
    if "\<not> ok r"
    using assms(6,7) that
    by (auto simp: calls body_write_request truthy_def split: sum.splits if_splits)
  show ?thesis
    using found absent by blast
qed

theorem write_carries_sha_of_existing_file_witness:
  "(\<exists>b. map body (write_calls (remote other_file created) None ready) = [Some b]
        \<and> body_sha b = Some (js ''abc123''))
   \<and> (\<exists>b. map body (write_calls (remote not_found created) None ready) = [Some b]
        \<and> body_sha b = None)"
proof -
  have w1: "write_calls (remote other_file created) None ready \<noteq> []"
    by (simp add: write_calls_guarded [OF ready_fields] push_calls_guarded [OF ready_fields]
        remote_fields other_file_def ok_def btoa_two_sum strip_newlines_def js_def)
  have w2: "write_calls (remote not_found created) None ready \<noteq> []"
    by (simp add: write_calls_guarded [OF ready_fields] push_calls_guarded [OF ready_fields]
        remote_fields not_found_def ok_def btoa_two_sum)
  have f: "ok other_file" "sha \<lparr>sha = Some (js ''abc123''), content = Some (js ''cHJpbnQoMik='' @ [0x0A])\<rparr> = Some (js ''abc123'')"
    "json other_file = Inr \<lparr>sha = Some (js ''abc123''), content = Some (js ''cHJpbnQoMik='' @ [0x0A])\<rparr>"
    "js ''abc123'' \<noteq> []" "\<not> ok not_found"
    by (simp_all add: other_file_def not_found_def ok_def js_def)
  show ?thesis
    using write_carries_sha_of_existing_file [OF ready_fields w1 remote_fields(1)]
      write_carries_sha_of_existing_file [OF ready_fields w2 remote_fields(1)] f
    by blast
qed

text \<open>When the \<open>try\<close> block returns true, it has sent the write with the base64 of the code.\<close>

lemma push_try_written:
  assumes "fst (push_try env cm token repo sub st) = Inr True"
  shows "\<exists>encoded sha_opt. btoa (code sub) = Inr encoded \<and>
           requests (snd (push_try env cm token repo sub st)) =
             requests st @ [read_request token repo sub,
               write_request token repo sub (commit_message cm sub) encoded sha_opt]"
proof -
  have w: "fst (push_write env cm token repo sub sha_opt s) = Inr True \<Longrightarrow>
      \<exists>encoded. btoa (code sub) = Inr encoded" for sha_opt s
    by (cases "btoa (code sub)") (simp_all add: push_write_cases)
  show ?thesis
    using assms w
    by (auto simp: push_try_def Let_def requests_push_write split: sum.splits if_splits)
qed

text \<open>
  C9. In a push that passes the guards and returns true, the content field of the write
  that was sent decodes, as base64, to the bytes of the code: one byte for each code unit
  of the string, in order, so that reading the bytes back as code units gives the code.
\<close>

theorem written_content_decodes_to_code:
  assumes "githubToken st = Some token" "token \<noteq> []"
    and "selectedRepo st = Some repo" "repo \<noteq> []"
    and "latestSubmission st = Some sub"
    and "fst (pushToGitHub env cm st) = Inr True"
  shows "\<exists>b bytes. map body (write_calls env cm st) = [Some b]
           \<and> b64decode (body_content b) = Some bytes
           \<and> bytes = map unat (code sub) \<and> map of_nat bytes = code sub"
proof -
  note guards = assms(1-5)
  from assms(6) have "fst (push_try env cm token repo sub (push_entry st)) = Inr True"
    by (simp add: fst_pushToGitHub [OF guards])
  then obtain encoded sha_opt where e: "btoa (code sub) = Inr encoded"
    and r: "requests (snd (push_try env cm token repo sub (push_entry st))) =
      requests (push_entry st) @ [read_request token repo sub,
        write_request token repo sub (commit_message cm sub) encoded sha_opt]"
    using push_try_written by blast
  have "push_calls env cm st = [read_request token repo sub,
      write_request token repo sub (commit_message cm sub) encoded sha_opt]"
    by (simp add: push_calls_def requests_pushToGitHub [OF guards] r push_entry_fields)
  then have "map body (write_calls env cm st) =
      [Some \<lparr>body_message = commit_message cm sub, body_content = encoded,
             body_branch = js ''main'',
             body_sha = (if truthy sha_opt then sha_opt else None)\<rparr>]"
    by (simp add: write_calls_def body_write_request)
  moreover have "map of_nat (map unat (code sub)) = code sub"
    by (simp add: map_idI)
  ultimately show ?thesis
    using btoa_roundtrip [OF e] by simp
qed

theorem written_content_decodes_to_code_witness:
  "\<exists>b bytes. map body (write_calls (remote not_found created) None ready) = [Some b]
       \<and> b64decode (body_content b) = Some bytes
       \<and> bytes = map unat (js ''print(1)'') \<and> map of_nat bytes = js ''print(1)''"
proof -
  have "push_try (remote not_found created) None (js ''gho_1'') (js ''octo/solutions'') two_sum
      (push_entry ready) =
    push_write (remote not_found created) None (js ''gho_1'') (js ''octo/solutions'') two_sum None
      ((push_entry ready)\<lparr>requests := requests (push_entry ready)
          @ [read_request (js ''gho_1'') (js ''octo/solutions'') two_sum]\<rparr>)"
    by (simp add: push_try_def Let_def remote_fields not_found_def ok_def)
  then have "fst (pushToGitHub (remote not_found created) None ready) = Inr True"
    by (simp add: fst_pushToGitHub [OF ready_fields] push_write_cases btoa_two_sum remote_fields
        created_def ok_def)
  from written_content_decodes_to_code [OF ready_fields this]
  show ?thesis by (simp add: two_sum_def)
qed


text \<open>
  C7, as the code has it. A push that passes the three guards sets the loading flag and
  clears the error and success flags before its \<open>try\<close> block, keeps the loading flag set
  to the end of the block, and on every way out of the block (a return or a throw)
  clears the loading flag; the error shown at the end is the error of this run or none,
  and the success flag is set exactly when this run returned.
  A push that fails a guard throws before it writes any flag: the state is as it was.
\<close>

theorem push_flags_set_after_guards_and_loading_cleared:
  "(githubToken st = Some token \<and> token \<noteq> [] \<and> selectedRepo st = Some repo \<and> repo \<noteq> []
      \<and> latestSubmission st = Some sub \<longrightarrow>
      pushLoading (push_entry st) \<and> pushError (push_entry st) = None \<and> \<not> pushSuccess (push_entry st)
      \<and> pushLoading (snd (push_try env cm token repo sub (push_entry st)))
      \<and> fst (pushToGitHub env cm st) = fst (push_try env cm token repo sub (push_entry st))
      \<and> snd (pushToGitHub env cm st) =
          (case fst (push_try env cm token repo sub (push_entry st)) of
             Inl error \<Rightarrow>
               (snd (push_try env cm token repo sub (push_entry st)))
                 \<lparr>pushError := Some (case error of Error m \<Rightarrow> m | NonError \<Rightarrow> js ''Failed to push''),
                  pushLoading := False\<rparr>
           | Inr written \<Rightarrow>
               (snd (push_try env cm token repo sub (push_entry st)))\<lparr>pushLoading := False\<rparr>)
      \<and> \<not> pushLoading (snd (pushToGitHub env cm st))
      \<and> pushError (snd (pushToGitHub env cm st)) =
          (case fst (pushToGitHub env cm st) of
             Inl error \<Rightarrow> Some (case error of Error m \<Rightarrow> m | NonError \<Rightarrow> js ''Failed to push'')
           | Inr written \<Rightarrow> None)
      \<and> pushSuccess (snd (pushToGitHub env cm st)) =
          (case fst (pushToGitHub env cm st) of Inl error \<Rightarrow> False | Inr written \<Rightarrow> True))
   \<and> (\<not> truthy (githubToken st) \<or> \<not> truthy (selectedRepo st) \<or> latestSubmission st = None \<longrightarrow>
        snd (pushToGitHub env cm st) = st)"
proof -
  have guarded: "pushLoading (snd (push_try env cm token repo sub (push_entry st)))
      \<and> fst (pushToGitHub env cm st) = fst (push_try env cm token repo sub (push_entry st))
      \<and> snd (pushToGitHub env cm st) =
          (case fst (push_try env cm token repo sub (push_entry st)) of
             Inl error \<Rightarrow>
               (snd (push_try env cm token repo sub (push_entry st)))
                 \<lparr>pushError := Some (case error of Error m \<Rightarrow> m | NonError \<Rightarrow> js ''Failed to push''),
                  pushLoading := False\<rparr>
           | Inr written \<Rightarrow>
               (snd (push_try env cm token repo sub (push_entry st)))\<lparr>pushLoading := False\<rparr>)
      \<and> \<not> pushLoading (snd (pushToGitHub env cm st))
      \<and> pushError (snd (pushToGitHub env cm st)) =
          (case fst (pushToGitHub env cm st) of
             Inl error \<Rightarrow> Some (case error of Error m \<Rightarrow> m | NonError \<Rightarrow> js ''Failed to push'')
           | Inr written \<Rightarrow> None)
      \<and> pushSuccess (snd (pushToGitHub env cm st)) =
          (case fst (pushToGitHub env cm st) of Inl error \<Rightarrow> False | Inr written \<Rightarrow> True)"
    if guards: "githubToken st = Some token" "token \<noteq> []" "selectedRepo st = Some repo"
      "repo \<noteq> []" "latestSubmission st = Some sub"
  proof (cases "push_try env cm token repo sub (push_entry st)")
    case (Pair result st1)
    have "pushLoading st1" "pushError st1 = None"
      using push_try_flags [of env cm token repo sub "push_entry st"] Pair
      by (simp_all add: push_entry_fields)
    moreover have "pushSuccess st1 = (case result of Inl error \<Rightarrow> False | Inr written \<Rightarrow> True)"
      using push_try_success [of "push_entry st" env cm token repo sub] Pair
      by (simp add: push_entry_fields)
    ultimately show ?thesis
      by (cases result) (simp_all add: pushToGitHub_guarded [OF guards] Pair)
  qed
  have unguarded: "snd (pushToGitHub env cm st) = st"
    if "\<not> truthy (githubToken st) \<or> \<not> truthy (selectedRepo st) \<or> latestSubmission st = None"
    using that by (auto simp: pushToGitHub_def)
  show ?thesis
    using guarded unguarded push_entry_fields(1-3) [of st] by blast
qed

theorem push_flags_set_after_guards_and_loading_cleared_witness:
  "\<not> pushLoading (snd (pushToGitHub (remote unauthorized_read created) None ready))
   \<and> pushError (snd (pushToGitHub (remote unauthorized_read created) None ready))
       = Some session_expired
   \<and> snd (pushToGitHub (remote not_found created) None stale_flags) = stale_flags"
proof -
  have run: "push_try (remote unauthorized_read created) None (js ''gho_1'') (js ''octo/solutions'')
      two_sum (push_entry ready) =
    (Inl (Error session_expired),
     handleInvalidToken ((push_entry ready)\<lparr>requests := requests (push_entry ready)
        @ [read_request (js ''gho_1'') (js ''octo/solutions'') two_sum]\<rparr>))"
    by (simp add: push_try_read_unauthorized remote_fields unauthorized_read_def)
  have fails: "\<not> truthy (githubToken stale_flags)"
    by (simp add: stale_flags_def truthy_def)
  show ?thesis
    using push_flags_set_after_guards_and_loading_cleared
      [of ready "js ''gho_1''" "js ''octo/solutions''" two_sum "remote unauthorized_read created" None]
      push_flags_set_after_guards_and_loading_cleared
      [of stale_flags "js ''gho_1''" "js ''octo/solutions''" two_sum "remote not_found created" None]
      ready_fields fails
    by (simp add: run)
qed

text \<open>
  C7 as the spec has it fails for a push that fails a guard: without a token the push
  throws and the error of the earlier push is still shown.
\<close>

theorem failed_guard_keeps_prior_error_counterexample:
  "fst (pushToGitHub (remote not_found created) None stale_flags)
     = Inl (Error (js ''Not authenticated''))
   \<and> pushError stale_flags = Some (js ''Not Found'')
   \<and> pushError (snd (pushToGitHub (remote not_found created) None stale_flags))
       = Some (js ''Not Found'')"
  by (simp add: pushToGitHub_def stale_flags_def truthy_def)

section \<open>The destination path\<close>

lemma safeTitle_safe: "set (safeTitle sub) \<inter> set unsafe_units = {}"
  by (auto simp: safeTitle_def unsafe_units_def)

lemma safeTitle_length: "length (safeTitle sub) = length (problemTitle sub)"
  by (simp add: safeTitle_def)

lemma commit_message_default:
  "\<not> truthy cm \<Longrightarrow> commit_message cm sub = safeTitle sub @ js '' Solved''"
  by (simp add: commit_message_def)

lemma extensionMap_values: "map_of extensionMap k = Some v \<Longrightarrow> v \<noteq> []"
  by (auto simp: extensionMap_def js_def split: if_splits)

text \<open>The derivation of the path for every language but the two inherited names.\<close>

lemma filePath_own_or_default:
  assumes "toLowerCase (language sub) \<noteq> js ''constructor''"
    and "toLowerCase (language sub) \<noteq> js ''__proto__''"
  shows "filePath sub =
           safeTitle sub @ js ''.'' @
             (case map_of extensionMap (toLowerCase (language sub)) of
                Some e \<Rightarrow> e
              | None \<Rightarrow> js ''txt'')"
  using assms
  by (auto simp: filePath_def ext_def extensionMap_get_def or_else_def to_string_def
      dest: extensionMap_values split: option.splits)

lemma filePath_two_sum: "filePath two_sum = js ''Two Sum.py''"
  by (simp add: filePath_def safeTitle_def ext_def extensionMap_get_def extensionMap_def
      toLowerCase_def lower_unit_def js_def unsafe_units_def or_else_def to_string_def two_sum_def)

lemma commit_message_two_sum: "commit_message None two_sum = js ''Two Sum Solved''"
  by (simp add: commit_message_def truthy_def safeTitle_def unsafe_units_def two_sum_def js_def)

text \<open>The scenario of the spec: Two Sum in python, no file at the remote side.\<close>

lemma two_sum_created:
  "fst (pushToGitHub (remote not_found created) None ready) = Inr True"
  "push_calls (remote not_found created) None ready =
     [read_request (js ''gho_1'') (js ''octo/solutions'') two_sum,
      write_request (js ''gho_1'') (js ''octo/solutions'') two_sum (js ''Two Sum Solved'')
        (js ''cHJpbnQoMSk='') None]"
  "map url (push_calls (remote not_found created) None ready) =
     [js ''https://api.github.com/repos/octo/solutions/contents/Two Sum.py?ref=main'',
      js ''https://api.github.com/repos/octo/solutions/contents/Two Sum.py'']"
proof -
  have "push_try (remote not_found created) None (js ''gho_1'') (js ''octo/solutions'') two_sum
      (push_entry ready) =
    push_write (remote not_found created) None (js ''gho_1'') (js ''octo/solutions'') two_sum None
      ((push_entry ready)\<lparr>requests := requests (push_entry ready)
          @ [read_request (js ''gho_1'') (js ''octo/solutions'') two_sum]\<rparr>)"
    by (simp add: push_try_def Let_def remote_fields not_found_def ok_def)
  then show "fst (pushToGitHub (remote not_found created) None ready) = Inr True"
    by (simp add: fst_pushToGitHub [OF ready_fields] push_write_cases btoa_two_sum remote_fields
        created_def ok_def)
  show calls: "push_calls (remote not_found created) None ready =
     [read_request (js ''gho_1'') (js ''octo/solutions'') two_sum,
      write_request (js ''gho_1'') (js ''octo/solutions'') two_sum (js ''Two Sum Solved'')
        (js ''cHJpbnQoMSk='') None]"
    by (simp add: push_calls_guarded [OF ready_fields] remote_fields not_found_def ok_def
        btoa_two_sum commit_message_two_sum)
  show "map url (push_calls (remote not_found created) None ready) =
     [js ''https://api.github.com/repos/octo/solutions/contents/Two Sum.py?ref=main'',
      js ''https://api.github.com/repos/octo/solutions/contents/Two Sum.py'']"
    by (simp add: calls read_request_def write_request_def filePath_two_sum) (simp add: js_def)
qed

text \<open>
  C6 at the language name \<open>constructor\<close>: the name is not in the table, and the
  extension is not \<open>txt\<close>: the lookup finds the constructor that every object inherits.
\<close>

theorem constructor_language_is_not_txt:
  "map_of extensionMap (toLowerCase (language constructor_submission)) = None
   \<and> ext constructor_submission = ObjectConstructor
   \<and> filePath constructor_submission = js ''Two Sum.function Object() { [native code] }''
   \<and> filePath constructor_submission \<noteq> js ''Two Sum.txt''"
  by (simp add: filePath_def safeTitle_def ext_def extensionMap_get_def extensionMap_def
      toLowerCase_def lower_unit_def js_def unsafe_units_def or_else_def to_string_def two_sum_def
      constructor_submission_def)

end
